theory Spec2Isabelle
  imports Complex_Main
begin

section \<open>Training-loop orchestration of \<open>python/train.py\<close>\<close>

text \<open>
  The development embeds the control logic of \<open>train.py\<close>: the metrics aggregator
  (\<open>accumulate_metrics\<close>, \<open>log_metrics\<close>), the metrics stream, the key stripping of
  \<open>load\<close>, the checkpoint rotation of \<open>save\<close>, the bucket limiter inside
  \<open>maybe_reload_training_data\<close> and at the start of an epoch, the sub-epoch file
  selection, and the export cycle at the end of an epoch.

  Conventions. Python floats are modelled as \<open>real\<close> (exact arithmetic), Python ints as
  \<open>int\<close>. A Python \<open>dict\<close> is an association list in insertion order with distinct
  keys. A raised exception is the \<open>Inl\<close> branch of a sum. A draw of \<open>random.random()\<close>
  is an explicit argument \<open>r\<close> with \<open>0 \<le> r < 1\<close>.
\<close>

subsection \<open>Strings and dictionaries\<close>

text \<open>\<open>s.startswith(p)\<close> and \<open>s.endswith(p)\<close>.\<close>

definition startswith :: "string \<Rightarrow> string \<Rightarrow> bool" where
  "startswith s p = (take (length p) s = p)"

definition endswith :: "string \<Rightarrow> string \<Rightarrow> bool" where
  "endswith s p = (length p \<le> length s \<and> drop (length s - length p) s = p)"

datatype error =
    KeyError
  | ZeroDivisionError
  | FileNotFoundError
  | FileExistsError
  | IsADirectoryError
  | NotADirectoryError
  | OSError
  | CorruptTrainDir

type_synonym 'v dict = "(string \<times> 'v) list"

text \<open>\<open>d[k] = v\<close>: an existing key keeps its position, a new key goes last.\<close>

fun dict_set :: "'v dict \<Rightarrow> string \<Rightarrow> 'v \<Rightarrow> 'v dict" where
  "dict_set [] k v = [(k, v)]"
| "dict_set ((k', v') # d) k v = (if k' = k then (k, v) # d else (k', v') # dict_set d k v)"

text \<open>\<open>k in d\<close>, and the read \<open>d[k]\<close> of a \<open>defaultdict(float)\<close>, which is 0.0 for a
  missing key.\<close>

definition dict_mem :: "'v dict \<Rightarrow> string \<Rightarrow> bool" where
  "dict_mem d k = (map_of d k \<noteq> None)"

definition dict_get0 :: "real dict \<Rightarrow> string \<Rightarrow> real" where
  "dict_get0 d k = (case map_of d k of None \<Rightarrow> 0 | Some v \<Rightarrow> v)"

subsection \<open>Metrics aggregator\<close>

text \<open>
  \<open>accumulate_metrics(metric_sums, metric_weights, metrics, batch_size, decay)\<close>.
  The first loop runs over the keys of \<open>metric_sums\<close> and decays the entries whose name
  ends in \<open>_sum\<close>; the second loop adds the batch.
\<close>

fun decay_loop :: "real \<Rightarrow> string list \<Rightarrow> real dict \<times> real dict \<Rightarrow> real dict \<times> real dict" where
  "decay_loop decay [] sw = sw"
| "decay_loop decay (metric # ks) (metric_sums, metric_weights) =
     decay_loop decay ks
       (if endswith metric ''_sum''
        then (dict_set metric_sums metric (dict_get0 metric_sums metric * decay),
              dict_set metric_weights metric (dict_get0 metric_weights metric * decay))
        else (metric_sums, metric_weights))"

fun add_loop :: "int \<Rightarrow> real dict \<Rightarrow> real dict \<times> real dict \<Rightarrow> real dict \<times> real dict" where
  "add_loop batch_size [] sw = sw"
| "add_loop batch_size ((metric, x) # ms) (metric_sums, metric_weights) =
     add_loop batch_size ms
       (if \<not> endswith metric ''_batch''
        then (dict_set metric_sums metric (dict_get0 metric_sums metric + x),
              dict_set metric_weights metric (dict_get0 metric_weights metric + of_int batch_size))
        else (dict_set metric_sums metric (dict_get0 metric_sums metric + x),
              dict_set metric_weights metric (dict_get0 metric_weights metric + 1)))"

definition accumulate_metrics ::
  "real dict \<Rightarrow> real dict \<Rightarrow> real dict \<Rightarrow> int \<Rightarrow> real \<Rightarrow> real dict \<times> real dict" where
  "accumulate_metrics metric_sums metric_weights metrics batch_size decay =
     add_loop batch_size metrics
       (if decay \<noteq> 1
        then decay_loop decay (map fst metric_sums) (metric_sums, metric_weights)
        else (metric_sums, metric_weights))"

text \<open>
  \<open>log_metrics\<close>. The state of the first loop is the record to print and the two
  dictionaries; a float division by zero raises. \<open>metric[:-4]\<close> drops the last four
  characters.
\<close>

definition py_div :: "real \<Rightarrow> real \<Rightarrow> error + real" where
  "py_div a b = (if b = 0 then Inl ZeroDivisionError else Inr (a / b))"

fun print_loop ::
  "string list \<Rightarrow> real dict \<times> real dict \<times> real dict \<Rightarrow> error + real dict \<times> real dict \<times> real dict" where
  "print_loop [] st = Inr st"
| "print_loop (metric # ks) (metrics_to_print, metric_sums, metric_weights) =
     (if endswith metric ''_sum'' then
        (case py_div (dict_get0 metric_sums metric) (dict_get0 metric_weights metric) of
           Inl e \<Rightarrow> Inl e
         | Inr q \<Rightarrow>
             print_loop ks
               (dict_set metrics_to_print (take (length metric - 4) metric) q,
                metric_sums, metric_weights))
      else if endswith metric ''_batch'' then
        (case py_div (dict_get0 metric_sums metric) (dict_get0 metric_weights metric) of
           Inl e \<Rightarrow> Inl e
         | Inr q \<Rightarrow>
             print_loop ks
               (dict_set metrics_to_print metric q,
                dict_set metric_sums metric 0, dict_set metric_weights metric 0))
      else
        print_loop ks
          (dict_set metrics_to_print metric (dict_get0 metric_sums metric),
           metric_sums, metric_weights))"

fun passthrough_loop :: "real dict \<Rightarrow> real dict \<Rightarrow> real dict \<Rightarrow> real dict" where
  "passthrough_loop metric_sums [] metrics_to_print = metrics_to_print"
| "passthrough_loop metric_sums ((metric, x) # ms) metrics_to_print =
     passthrough_loop metric_sums ms
       (if \<not> dict_mem metric_sums metric then dict_set metrics_to_print metric x
        else metrics_to_print)"

text \<open>
  The metrics stream is the list of records written so far, one per line.
  \<open>log_metrics\<close> returns the updated sums and weights and the stream after
  \<open>metrics_out.write(json.dumps(metrics_to_print) + "\n")\<close> and \<open>metrics_out.flush()\<close>.
\<close>

type_synonym metrics_record = "real dict"

definition log_metrics ::
  "real dict \<Rightarrow> real dict \<Rightarrow> real dict \<Rightarrow> metrics_record list \<Rightarrow>
   error + real dict \<times> real dict \<times> metrics_record list" where
  "log_metrics metric_sums metric_weights metrics metrics_out =
     (case print_loop (map fst metric_sums) ([], metric_sums, metric_weights) of
        Inl e \<Rightarrow> Inl e
      | Inr (metrics_to_print, metric_sums', metric_weights') \<Rightarrow>
          Inr (metric_sums', metric_weights',
               metrics_out @ [passthrough_loop metric_sums' metrics metrics_to_print]))"

subsection \<open>Stripping the distributed-wrapper prefix in \<open>load\<close>\<close>

text \<open>
  The inner loop of \<open>load\<close>:
  \<^verbatim>\<open>while key.startswith("module."): key = key[:7]\<close>.
  The slice \<open>key[:7]\<close> keeps the first seven characters. The loop may not return, so
  its result is an option and \<open>None\<close> stands for a loop that runs forever.
\<close>

partial_function (option) strip_module :: "string \<Rightarrow> string option" where
  "strip_module key =
     (if startswith key ''module.'' then strip_module (take 7 key) else Some key)"

text \<open>
  The outer loop \<open>for key in state_dict["model"]\<close> fills \<open>model_state_dict\<close>, which
  starts empty.
\<close>

fun strip_keys :: "'v dict \<Rightarrow> 'v dict \<Rightarrow> 'v dict option" where
  "strip_keys [] model_state_dict = Some model_state_dict"
| "strip_keys ((old_key, v) # rest) model_state_dict =
     (case strip_module old_key of
        None \<Rightarrow> None
      | Some key \<Rightarrow> strip_keys rest (dict_set model_state_dict key v))"

definition load_model_state_dict :: "'v dict \<Rightarrow> 'v dict option" where
  "load_model_state_dict state_dict_model = strip_keys state_dict_model []"

subsection \<open>File system\<close>

text \<open>
  A path is its list of components, \<open>os.path.join(p, a)\<close> is \<open>p @ [a]\<close>, and
  \<open>path + ".tmp"\<close> appends to the last component. A file system maps a path to a
  directory or to a file with its content; the root is \<open>[]\<close>.
\<close>

type_synonym path = "string list"

datatype 'c node = Dir | File 'c

type_synonym 'c fs = "path \<Rightarrow> 'c node option"

type_synonym 'c io = "'c fs \<Rightarrow> (error + unit) \<times> 'c fs"

definition path_add :: "path \<Rightarrow> string \<Rightarrow> path" where
  "path_add p s = butlast p @ [last p @ s]"

definition path_exists :: "'c fs \<Rightarrow> path \<Rightarrow> bool" where
  "path_exists fs p = (fs p \<noteq> None)"

definition is_under :: "path \<Rightarrow> path \<Rightarrow> bool" where
  "is_under q p = (take (length p) q = p)"

text \<open>Statements in sequence: the first exception ends the sequence.\<close>

fun run_all :: "'c io list \<Rightarrow> 'c io" where
  "run_all [] fs = (Inr (), fs)"
| "run_all (m # ms) fs =
     (case m fs of (Inl e, fs') \<Rightarrow> (Inl e, fs') | (Inr u, fs') \<Rightarrow> run_all ms fs')"

text \<open>
  \<open>open(p, "w")\<close> followed by the write of \<open>c\<close> (also \<open>torch.save(c, p)\<close>): the
  directory of \<open>p\<close> must exist; the file is created or replaced.
\<close>

definition write_file :: "path \<Rightarrow> 'c \<Rightarrow> 'c io" where
  "write_file p c fs =
     (case fs (butlast p) of
        None \<Rightarrow> (Inl FileNotFoundError, fs)
      | Some (File x) \<Rightarrow> (Inl NotADirectoryError, fs)
      | Some Dir \<Rightarrow>
          (if p = [] \<or> fs p = Some Dir then (Inl IsADirectoryError, fs)
           else (Inr (), fs(p \<mapsto> File c))))"

definition os_mkdir :: "path \<Rightarrow> 'c io" where
  "os_mkdir p fs =
     (if fs p \<noteq> None then (Inl FileExistsError, fs)
      else (case fs (butlast p) of
              None \<Rightarrow> (Inl FileNotFoundError, fs)
            | Some (File x) \<Rightarrow> (Inl NotADirectoryError, fs)
            | Some Dir \<Rightarrow> (Inr (), fs(p \<mapsto> Dir))))"

text \<open>
  \<open>os.replace(src, dst)\<close> and \<open>os.rename(src, dst)\<close> move \<open>src\<close> with everything
  under it. A file replaces a file, and a directory replaces a directory that is
  empty; a directory that holds an entry is not replaced (\<open>OSError\<close>).
\<close>

definition dir_has_entry :: "'c fs \<Rightarrow> path \<Rightarrow> bool" where
  "dir_has_entry fs p = (\<exists>q. q \<noteq> p \<and> is_under q p \<and> fs q \<noteq> None)"

definition move_tree :: "path \<Rightarrow> path \<Rightarrow> 'c fs \<Rightarrow> 'c fs" where
  "move_tree src dst fs =
     (\<lambda>q. if is_under q dst then fs (src @ drop (length dst) q)
          else if is_under q src then None
          else fs q)"

definition os_replace :: "path \<Rightarrow> path \<Rightarrow> 'c io" where
  "os_replace src dst fs =
     (case fs src of
        None \<Rightarrow> (Inl FileNotFoundError, fs)
      | Some n \<Rightarrow>
          (case fs (butlast dst) of
             None \<Rightarrow> (Inl FileNotFoundError, fs)
           | Some (File x) \<Rightarrow> (Inl NotADirectoryError, fs)
           | Some Dir \<Rightarrow>
               (case (n, fs dst) of
                  (File c, Some Dir) \<Rightarrow> (Inl IsADirectoryError, fs)
                | (Dir, Some (File c)) \<Rightarrow> (Inl NotADirectoryError, fs)
                | (Dir, Some Dir) \<Rightarrow>
                    (if dir_has_entry fs dst then (Inl OSError, fs)
                     else (Inr (), move_tree src dst fs))
                | _ \<Rightarrow> (Inr (), move_tree src dst fs))))"

definition os_rename :: "path \<Rightarrow> path \<Rightarrow> 'c io" where
  "os_rename src dst = os_replace src dst"

text \<open>\<open>shutil.copy(src, dst)\<close> of a file onto a file path.\<close>

definition shutil_copy :: "path \<Rightarrow> path \<Rightarrow> 'c io" where
  "shutil_copy src dst fs =
     (case fs src of
        None \<Rightarrow> (Inl FileNotFoundError, fs)
      | Some Dir \<Rightarrow> (Inl IsADirectoryError, fs)
      | Some (File c) \<Rightarrow> write_file dst c fs)"

text \<open>The \<open>%d\<close> of Python's string formatting.\<close>

fun string_of_nat :: "nat \<Rightarrow> string" where
  "string_of_nat n =
     (if n < 10 then [''0123456789'' ! n]
      else string_of_nat (n div 10) @ [''0123456789'' ! (n mod 10)])"

declare string_of_nat.simps [simp del]

definition string_of_int :: "int \<Rightarrow> string" where
  "string_of_int i =
     (if i < 0 then ''-'' @ string_of_nat (nat (- i)) else string_of_nat (nat i))"

subsection \<open>Checkpoint store: \<open>save\<close>\<close>

definition get_checkpoint_path :: "path \<Rightarrow> path" where
  "get_checkpoint_path traindir = traindir @ [''checkpoint.ckpt'']"

definition get_checkpoint_prev_path :: "path \<Rightarrow> nat \<Rightarrow> path" where
  "get_checkpoint_prev_path traindir i =
     traindir @ [''checkpoint_prev'' @ string_of_nat i @ ''.ckpt'']"

definition NUM_SHORTTERM_CHECKPOINTS_TO_KEEP :: nat where
  "NUM_SHORTTERM_CHECKPOINTS_TO_KEEP = 4"

text \<open>The body of the rotation loop, for one \<open>i\<close>.\<close>

definition rotate_prev :: "path \<Rightarrow> nat \<Rightarrow> 'c io" where
  "rotate_prev traindir i fs =
     (if path_exists fs (get_checkpoint_prev_path traindir i)
      then os_replace (get_checkpoint_prev_path traindir i)
             (get_checkpoint_prev_path traindir (i + 1)) fs
      else (Inr (), fs))"

text \<open>
  \<open>save(model, swa_model, optimizer, metrics_obj, running_metrics, train_state, path)\<close>;
  \<open>state_dict\<close> is the bundle that \<open>save\<close> assembles from its arguments.
\<close>

definition save :: "int \<Rightarrow> path \<Rightarrow> 'c \<Rightarrow> path option \<Rightarrow> 'c io" where
  "save rank traindir state_dict path =
     (if rank = 0 then
        (case path of
           Some p \<Rightarrow>
             run_all
               [write_file (path_add p ''.tmp'') state_dict,
                os_replace (path_add p ''.tmp'') p]
         | None \<Rightarrow>
             run_all
               (map (rotate_prev traindir) (rev [0 ..< NUM_SHORTTERM_CHECKPOINTS_TO_KEEP - 1])
                @ [shutil_copy (get_checkpoint_path traindir) (get_checkpoint_prev_path traindir 0),
                   write_file (path_add (get_checkpoint_path traindir) ''.tmp'') state_dict,
                   os_replace (path_add (get_checkpoint_path traindir) ''.tmp'')
                     (get_checkpoint_path traindir)]))
      else run_all [])"

subsection \<open>Export of a model snapshot\<close>

text \<open>
  The export branch of \<open>main\<close>, taken when an export is decided: the name is
  \<open>"%s-s%d-d%d" % (exportprefix, global_step_samples, last_datainfo_row)\<close>.
\<close>

definition export_modelname :: "string \<Rightarrow> int \<Rightarrow> int \<Rightarrow> string" where
  "export_modelname exportprefix global_step_samples last_datainfo_row =
     exportprefix @ ''-s'' @ string_of_int global_step_samples
       @ ''-d'' @ string_of_int last_datainfo_row"

definition export_step ::
  "path \<Rightarrow> path \<Rightarrow> string \<Rightarrow> int \<Rightarrow> int \<Rightarrow> 'c \<Rightarrow> 'c \<Rightarrow> 'c \<Rightarrow> 'c io" where
  "export_step traindir exportdir exportprefix global_step_samples last_datainfo_row
     state_dict trainhistory model_config fs =
     (let modelname = export_modelname exportprefix global_step_samples last_datainfo_row;
          savepath = exportdir @ [modelname];
          savepathtmp = exportdir @ [modelname @ ''.tmp'']
      in if path_exists fs savepath then (Inr (), fs)
         else
           run_all
             [os_mkdir savepathtmp,
              save 0 traindir state_dict (Some (savepathtmp @ [''model.ckpt''])),
              write_file (savepathtmp @ [''trainhistory.json'']) trainhistory,
              write_file (savepathtmp @ [''model.config.json'']) model_config,
              write_file (savepathtmp @ [''saved_model'', ''model.config.json'']) model_config,
              write_file (savepathtmp @ [''non_swa_saved_model'', ''model.config.json''])
                model_config,
              os_rename savepathtmp savepath] fs)"

subsection \<open>Metrics stream\<close>

text \<open>
  \<open>train_metrics_out = open(os.path.join(traindir,"metrics_train.json"),"w+")\<close>:
  mode \<open>"w+"\<close> creates the file or truncates it to no records. A flush writes one
  record at the end of the open file.
\<close>

definition metrics_train_path :: "path \<Rightarrow> path" where
  "metrics_train_path traindir = traindir @ [''metrics_train.json'']"

definition open_train_metrics_out :: "path \<Rightarrow> (metrics_record list) io" where
  "open_train_metrics_out traindir = write_file (metrics_train_path traindir) []"

definition flush_train_metrics ::
  "path \<Rightarrow> real dict \<Rightarrow> real dict \<Rightarrow> real dict \<Rightarrow> (metrics_record list) fs \<Rightarrow>
   (error + real dict \<times> real dict) \<times> (metrics_record list) fs" where
  "flush_train_metrics traindir metric_sums metric_weights metrics fs =
     (case fs (metrics_train_path traindir) of
        Some (File metrics_out) \<Rightarrow>
          (case log_metrics metric_sums metric_weights metrics metrics_out of
             Inl e \<Rightarrow> (Inl e, fs)
           | Inr (metric_sums', metric_weights', metrics_out') \<Rightarrow>
               (Inr (metric_sums', metric_weights'),
                fs(metrics_train_path traindir \<mapsto> File metrics_out')))
      | _ \<Rightarrow> (Inl OSError, fs))"

subsection \<open>Persistent state and training history\<close>

text \<open>
  \<open>train_state\<close> is a dictionary; the two bucket keys may be absent (\<open>None\<close>), and
  reading an absent key raises \<open>KeyError\<close>. The other keys are set by \<open>main\<close> before
  the first epoch.
\<close>

record train_state =
  global_step_samples :: int
  train_bucket_level :: "real option"
  train_bucket_level_at_row :: "int option"
  train_steps_since_last_reload :: int
  export_cycle_counter :: int

text \<open>
  \<open>trainhistory\<close> is a dictionary too: \<open>"history"\<close> holds the list of events, and
  \<open>save_history\<close> stores copies of the train state and of the running metrics under
  \<open>"train_state"\<close> and \<open>"extra_stats"\<close>.
\<close>

datatype event = Started string | NewData int "int \<times> int"

datatype th_value =
    History "event list"
  | TrainStateCopy train_state
  | ExtraStats "real dict" "real dict"

type_synonym trainhistory = "th_value dict"

definition history_append :: "trainhistory \<Rightarrow> event \<Rightarrow> error + trainhistory" where
  "history_append trainhistory ev =
     (case map_of trainhistory ''history'' of
        Some (History h) \<Rightarrow> Inr (dict_set trainhistory ''history'' (History (h @ [ev])))
      | _ \<Rightarrow> Inl KeyError)"

text \<open>The two assignments of \<open>save_history\<close>, before the file is written.\<close>

definition save_history_snapshot ::
  "trainhistory \<Rightarrow> train_state \<Rightarrow> real dict \<Rightarrow> real dict \<Rightarrow> trainhistory" where
  "save_history_snapshot trainhistory train_state running_sums running_weights =
     dict_set (dict_set trainhistory ''train_state'' (TrainStateCopy train_state))
       ''extra_stats'' (ExtraStats running_sums running_weights)"

subsection \<open>Train bucket limiter\<close>

text \<open>
  The bucket update inside \<open>maybe_reload_training_data\<close>, run when a new data
  directory has been read and \<open>last_datainfo_row\<close> is the end of its row range. The
  first test looks the key up in \<open>trainhistory\<close>.
\<close>

definition advance_bucket ::
  "real option \<Rightarrow> real \<Rightarrow> int \<Rightarrow> trainhistory \<Rightarrow> int \<Rightarrow> train_state \<Rightarrow> error + train_state" where
  "advance_bucket max_train_bucket_per_new_data max_train_bucket_size samples_per_epoch
     trainhistory last_datainfo_row train_state =
     (case max_train_bucket_per_new_data of
        None \<Rightarrow> Inr train_state
      | Some fill \<Rightarrow>
          (let ts1 =
                 (if \<not> dict_mem trainhistory ''train_bucket_level_at_row''
                  then train_state\<lparr>train_bucket_level_at_row := Some last_datainfo_row\<rparr>
                  else train_state)
           in case train_bucket_level_at_row ts1 of
                None \<Rightarrow> Inl KeyError
              | Some at_row \<Rightarrow>
                  (if last_datainfo_row > at_row then
                     (let new_row_count = last_datainfo_row - at_row;
                          ts2 = ts1\<lparr>train_bucket_level_at_row := Some last_datainfo_row\<rparr>
                      in case train_bucket_level ts2 of
                           None \<Rightarrow> Inl KeyError
                         | Some level \<Rightarrow>
                             (let level' = level + of_int new_row_count * fill;
                                  cap = max max_train_bucket_size (of_int samples_per_epoch)
                              in Inr (ts2\<lparr>train_bucket_level :=
                                        Some (if level' > cap then cap else level')\<rparr>)))
                   else Inr ts1)))"

text \<open>
  One pass of the \<open>while True\<close> loop of \<open>maybe_reload_training_data\<close> (rank 0). The
  environment gives what the pass reads: the resolved data directory, whether it exists,
  the row range of \<open>train.json\<close> (\<open>None\<close> when the file is absent) and the listing of
  the \<open>train\<close> subdirectory (\<open>None\<close> when it cannot be listed). A pass either ends the
  loop or sleeps and repeats.
\<close>

record data_env =
  curdatadir :: path
  curdatadir_exists :: bool
  datainfo_range :: "(int \<times> int) option"
  train_listing :: "string list option"

record reload_state =
  last_curdatadir :: "path option"
  last_datainfo_row :: int
  train_files :: "path list"
  num_train_files :: nat
  vdatadir :: "path option"

datatype reload_result = Ready | SleepAndRetry nat

definition reload_pass ::
  "real option \<Rightarrow> real \<Rightarrow> int \<Rightarrow> int \<Rightarrow> real option \<Rightarrow> data_env \<Rightarrow>
   reload_state \<times> train_state \<times> trainhistory \<Rightarrow>
   error + reload_result \<times> reload_state \<times> train_state \<times> trainhistory" where
  "reload_pass max_train_bucket_per_new_data max_train_bucket_size samples_per_epoch sub_epochs
     max_train_steps_since_last_reload env st =
     (case st of (rs, train_state, trainhistory) \<Rightarrow>
      if Some (curdatadir env) \<noteq> last_curdatadir rs then
        (if \<not> curdatadir_exists env then Inr (SleepAndRetry 30, st)
         else case datainfo_range env of
           None \<Rightarrow> Inr (SleepAndRetry 30, st)
         | Some row_range \<Rightarrow>
             (case advance_bucket max_train_bucket_per_new_data max_train_bucket_size
                     samples_per_epoch trainhistory (snd row_range) train_state of
                Inl e \<Rightarrow> Inl e
              | Inr ts \<Rightarrow>
                  (case history_append trainhistory (NewData (global_step_samples ts) row_range) of
                     Inl e \<Rightarrow> Inl e
                   | Inr th \<Rightarrow>
                       (case train_listing env of
                          None \<Rightarrow> Inl FileNotFoundError
                        | Some listing \<Rightarrow>
                            (let files = map (\<lambda>fname. curdatadir env @ [''train'', fname])
                                           (filter (\<lambda>fname. endswith fname ''.npz'') listing)
                             in Inr (Ready,
                                     \<lparr>last_curdatadir = Some (curdatadir env),
                                      last_datainfo_row = snd row_range,
                                      train_files = files,
                                      num_train_files = length files,
                                      vdatadir = Some (curdatadir env @ [''val''])\<rparr>,
                                     ts\<lparr>train_steps_since_last_reload := 0\<rparr>,
                                     th))))))
      else
        (case max_train_steps_since_last_reload of
           None \<Rightarrow> Inr (Ready, st)
         | Some limit \<Rightarrow>
             (case py_div (99 / 100 * of_int samples_per_epoch) (of_int sub_epochs) of
                Inl e \<Rightarrow> Inl e
              | Inr step \<Rightarrow>
                  (if of_int (train_steps_since_last_reload train_state) + step > limit
                   then Inr (SleepAndRetry 300, st)
                   else Inr (Ready, st)))))"

text \<open>
  The bucket test at the start of an epoch: either the epoch proceeds, or \<open>main\<close>
  sleeps the given number of seconds and starts the loop body again.
\<close>

datatype epoch_gate = Proceed | WaitAndRetry nat

definition consume_bucket ::
  "real option \<Rightarrow> int \<Rightarrow> train_state \<Rightarrow> error + epoch_gate \<times> train_state" where
  "consume_bucket max_train_bucket_per_new_data samples_per_epoch train_state =
     (case max_train_bucket_per_new_data of
        None \<Rightarrow> Inr (Proceed, train_state)
      | Some fill \<Rightarrow>
          (case train_bucket_level train_state of
             None \<Rightarrow> Inl KeyError
           | Some level \<Rightarrow>
               (if level > 99 / 100 * of_int samples_per_epoch
                then Inr (Proceed,
                          train_state\<lparr>train_bucket_level :=
                            Some (level - of_int samples_per_epoch)\<rparr>)
                else Inr (WaitAndRetry 300, train_state))))"

subsection \<open>Sub-epoch file selection\<close>

text \<open>
  The body of \<open>for filename in trainfilegenerator\<close>, for one file with its
  \<open>num_batches\<close>. The state is \<open>(train_files_to_use, batches_to_use_so_far)\<close>; \<open>r\<close> is
  the value of \<open>random.random()\<close>, read only when the two tests before it hold.
\<close>

datatype 'a loop_step = Continue 'a | Break 'a

definition select_step ::
  "real \<Rightarrow> string \<times> int \<Rightarrow> real \<Rightarrow> string list \<times> int \<Rightarrow> (string list \<times> int) loop_step" where
  "select_step num_batches_per_subepoch file r st =
     (case (file, st) of
        ((filename, num_batches_this_file), (train_files_to_use, batches_to_use_so_far)) \<Rightarrow>
        if num_batches_this_file \<le> 0 then Continue st
        else if of_int (batches_to_use_so_far + num_batches_this_file) > num_batches_per_subepoch
                \<and> batches_to_use_so_far > 0
                \<and> r \<ge> (of_int (batches_to_use_so_far + num_batches_this_file)
                          - num_batches_per_subepoch) / of_int num_batches_this_file
        then Break st
        else
          (let files = train_files_to_use @ [filename];
               total = batches_to_use_so_far + num_batches_this_file
           in if of_int total \<ge> num_batches_per_subepoch \<or> length files > 100000
              then Break (files, total)
              else Continue (files, total)))"

text \<open>
  The loop over a finite prefix of the file stream, each file with the draw it would
  use; \<open>None\<close> when the prefix ends before the loop does.
\<close>

fun select_files ::
  "real \<Rightarrow> ((string \<times> int) \<times> real) list \<Rightarrow> string list \<times> int \<Rightarrow> (string list \<times> int) option" where
  "select_files num_batches_per_subepoch [] st = None"
| "select_files num_batches_per_subepoch ((file, r) # rest) st =
     (case select_step num_batches_per_subepoch file r st of
        Break st' \<Rightarrow> Some st'
      | Continue st' \<Rightarrow> select_files num_batches_per_subepoch rest st')"

subsection \<open>Export cycle\<close>

text \<open>
  The export decision at the end of an epoch (rank 0); \<open>r\<close> is the value of
  \<open>random.random()\<close>, read only when \<open>export_prob\<close> is given. The result is the value
  of \<open>not no_export and is_time_to_export and not skip_export_this_time\<close> and the new
  train state.
\<close>

definition export_cycle ::
  "int \<Rightarrow> bool \<Rightarrow> real option \<Rightarrow> real \<Rightarrow> train_state \<Rightarrow> bool \<times> train_state" where
  "export_cycle epochs_per_export no_export export_prob r train_state =
     (let ts1 = train_state\<lparr>export_cycle_counter := export_cycle_counter train_state + 1\<rparr>;
          (is_time_to_export, ts2) =
            (if export_cycle_counter ts1 \<ge> epochs_per_export then
               (if no_export then (False, ts1\<lparr>export_cycle_counter := epochs_per_export\<rparr>)
                else (True, ts1\<lparr>export_cycle_counter := 0\<rparr>))
             else (False, ts1));
          skip_export_this_time =
            (case export_prob of None \<Rightarrow> False | Some p \<Rightarrow> r > p)
      in (\<not> no_export \<and> is_time_to_export \<and> \<not> skip_export_this_time, ts2))"

text \<open>Epochs in sequence, one draw each: the decisions made and the final state.\<close>

fun run_epochs ::
  "int \<Rightarrow> bool \<Rightarrow> real option \<Rightarrow> real list \<Rightarrow> train_state \<Rightarrow> bool list \<times> train_state" where
  "run_epochs epochs_per_export no_export export_prob [] train_state = ([], train_state)"
| "run_epochs epochs_per_export no_export export_prob (r # rs) train_state =
     (case export_cycle epochs_per_export no_export export_prob r train_state of
        (decision, ts) \<Rightarrow>
          (case run_epochs epochs_per_export no_export export_prob rs ts of
             (decisions, ts') \<Rightarrow> (decision # decisions, ts')))"

subsection \<open>Frame of a file-system statement\<close>

text \<open>
  \<open>keeps q m\<close>: the statement \<open>m\<close> never creates the path \<open>q\<close>. It is used to
  follow an absent path through a sequence of statements.
\<close>

definition keeps :: "path \<Rightarrow> 'c io \<Rightarrow> bool" where
  "keeps q m = (\<forall>fs. \<not> path_exists fs q \<longrightarrow> \<not> path_exists (snd (m fs)) q)"

section \<open>Properties\<close>

subsection \<open>Dictionary lemmas\<close>

lemma map_of_dict_set: "map_of (dict_set d k v) = (map_of d)(k \<mapsto> v)"
  by (induction d) auto

lemma get0_dict_set: "dict_get0 (dict_set d k v) k' = (if k' = k then v else dict_get0 d k')"
  by (simp add: dict_get0_def map_of_dict_set)

lemma dict_mem_dict_set: "dict_mem (dict_set d k v) k' = (k' = k \<or> dict_mem d k')"
  by (simp add: dict_mem_def map_of_dict_set)

subsection \<open>Metrics aggregator\<close>

text \<open>
  What the decay loop does to the entry of a key \<open>k\<close>: only a key of the list that
  ends in \<open>_sum\<close> is scaled.
\<close>

lemma decay_loop_get0:
  "distinct ks \<Longrightarrow> decay_loop decay ks (s, w) = (s', w') \<Longrightarrow>
   dict_get0 s' k =
     (if k \<in> set ks \<and> endswith k ''_sum'' then dict_get0 s k * decay else dict_get0 s k)
 \<and> dict_get0 w' k =
     (if k \<in> set ks \<and> endswith k ''_sum'' then dict_get0 w k * decay else dict_get0 w k)"
proof (induction ks arbitrary: s w)
  case Nil
  then show ?case by simp
next
  case (Cons a ks)
  then show ?case by (auto simp: get0_dict_set split: if_splits)
qed

lemma add_loop_get0:
  "distinct (map fst ms) \<Longrightarrow> add_loop bs ms (s, w) = (s', w') \<Longrightarrow>
   dict_get0 s' k = dict_get0 s k + (case map_of ms k of None \<Rightarrow> 0 | Some x \<Rightarrow> x)
 \<and> dict_get0 w' k = dict_get0 w k +
       (case map_of ms k of None \<Rightarrow> 0
        | Some x \<Rightarrow> if endswith k ''_batch'' then 1 else of_int bs)"
proof (induction ms arbitrary: s w)
  case Nil
  then show ?case by simp
next
  case (Cons a ms)
  obtain m x where a: "a = (m, x)" by (cases a)
  from Cons.prems have d: "distinct (map fst ms)" and nm: "m \<notin> fst ` set ms"
    by (auto simp: a)
  have nn: "map_of ms m = None" using nm by (simp add: map_of_eq_None_iff)
  show ?case using Cons.prems(2) Cons.IH[OF d] nn
    by (auto simp: a get0_dict_set split: if_splits option.splits)
qed

text \<open>
  C9, as the code has it. For a call of \<open>accumulate_metrics\<close> with \<open>decay \<noteq> 1\<close> and a
  key \<open>k\<close> present in \<open>metric_sums\<close>: when \<open>k\<close> ends in \<open>_sum\<close>, its sum and its weight
  are multiplied by \<open>decay\<close> before the contribution of the new batch is added; when
  \<open>k\<close> has any other suffix, its sum and weight are not decayed and only the
  contribution of the new batch is added.
\<close>

theorem accumulate_metrics_decays_sum_entries:
  assumes "decay \<noteq> 1"
    and "distinct (map fst metric_sums)"
    and "distinct (map fst metrics)"
    and "map_of metric_sums k = Some s"
  shows "dict_get0 (fst (accumulate_metrics metric_sums metric_weights metrics batch_size decay)) k
           = (if endswith k ''_sum'' then s * decay else s)
             + (case map_of metrics k of None \<Rightarrow> 0 | Some x \<Rightarrow> x)
       \<and> dict_get0 (snd (accumulate_metrics metric_sums metric_weights metrics batch_size decay)) k
           = (if endswith k ''_sum'' then dict_get0 metric_weights k * decay
              else dict_get0 metric_weights k)
             + (case map_of metrics k of None \<Rightarrow> 0
                | Some x \<Rightarrow> if endswith k ''_batch'' then 1 else of_int batch_size)"
proof -
  obtain s1 w1 where
    d: "decay_loop decay (map fst metric_sums) (metric_sums, metric_weights) = (s1, w1)"
    by (cases "decay_loop decay (map fst metric_sums) (metric_sums, metric_weights)")
  obtain s2 w2 where a: "add_loop batch_size metrics (s1, w1) = (s2, w2)"
    by (cases "add_loop batch_size metrics (s1, w1)")
  have kin: "k \<in> set (map fst metric_sums)"
    using assms(4) by (metis map_of_eq_None_iff option.distinct(1) set_map)
  have g: "dict_get0 metric_sums k = s" using assms(4) by (simp add: dict_get0_def)
  from decay_loop_get0[OF assms(2) d, of k] add_loop_get0[OF assms(3) a, of k] kin g
  show ?thesis using assms(1) by (simp add: accumulate_metrics_def d a)
qed

theorem accumulate_metrics_decays_sum_entries_witness:
  "dict_get0 (fst (accumulate_metrics [(''loss_sum'', 10), (''gnorm_batch'', 4)]
       [(''loss_sum'', 1), (''gnorm_batch'', 2)]
       [(''loss_sum'', 10), (''gnorm_batch'', 6)] 1 (1/2))) ''loss_sum'' = 15
   \<and> dict_get0 (snd (accumulate_metrics [(''loss_sum'', 10), (''gnorm_batch'', 4)]
       [(''loss_sum'', 1), (''gnorm_batch'', 2)]
       [(''loss_sum'', 10), (''gnorm_batch'', 6)] 1 (1/2))) ''loss_sum'' = 3/2"
  using accumulate_metrics_decays_sum_entries[of "1/2"
      "[(''loss_sum'', 10), (''gnorm_batch'', 4)]"
      "[(''loss_sum'', 10), (''gnorm_batch'', 6)]" "''loss_sum''" 10
      "[(''loss_sum'', 1), (''gnorm_batch'', 2)]" 1]
  by (simp add: endswith_def dict_get0_def)

text \<open>
  C9 as stated fails: with decay 1/2, the pair of \<open>gnorm_batch\<close> (sum 4, weight 2) is in
  the state, and after a batch that contributes 6 the sum is 10 and the weight 3, not
  \<open>4 * 1/2 + 6\<close> and \<open>2 * 1/2 + 1\<close>.
\<close>

theorem accumulate_metrics_decay_all_counterexample:
  "accumulate_metrics [(''gnorm_batch'', 4)] [(''gnorm_batch'', 2)] [(''gnorm_batch'', 6)] 1 (1/2)
     = ([(''gnorm_batch'', 10)], [(''gnorm_batch'', 3)])
   \<and> (10::real) \<noteq> 4 * (1/2) + 6 \<and> (3::real) \<noteq> 2 * (1/2) + 1 \<and> (1/2::real) \<noteq> 1"
  by (simp add: accumulate_metrics_def endswith_def dict_get0_def)

text \<open>
  C10. From the empty state with decay 1/2, accumulating \<open>{"loss_sum": 10}\<close> with batch
  size 1 twice gives the sum \<open>10 * 1/2 + 10 = 15\<close> and the weight \<open>1/2 + 1 = 3/2\<close>, and
  the flush that follows writes the mean 10 for this metric (under the name \<open>loss\<close>).
\<close>

theorem metrics_decay_half_example:
  "accumulate_metrics [] [] [(''loss_sum'', 10)] 1 (1/2)
      = ([(''loss_sum'', 10)], [(''loss_sum'', 1)])
  \<and> accumulate_metrics [(''loss_sum'', 10)] [(''loss_sum'', 1)] [(''loss_sum'', 10)] 1 (1/2)
      = ([(''loss_sum'', 10 * (1/2) + 10)], [(''loss_sum'', 1/2 + 1)])
  \<and> (10 * (1/2) + 10 = (15::real)) \<and> (1/2 + 1 = (3/2::real))
  \<and> log_metrics [(''loss_sum'', 15)] [(''loss_sum'', 3/2)] [(''loss_sum'', 10)] []
      = Inr ([(''loss_sum'', 15)], [(''loss_sum'', 3/2)], [[(''loss'', 10)]])"
  by (simp add: accumulate_metrics_def log_metrics_def endswith_def dict_get0_def py_div_def
      dict_mem_def)

subsection \<open>Loading: the prefix loop\<close>

lemma startswith_take7:
  assumes "startswith key ''module.''"
  shows "startswith (take 7 key) ''module.''"
proof -
  have l: "length ''module.'' = (7::nat)" by simp
  show ?thesis using assms unfolding startswith_def l by simp
qed

text \<open>
  Whenever the loop returns, the key it started from had no \<open>module.\<close> prefix: by
  the fixpoint induction of \<open>strip_module\<close>, since \<open>key[:7]\<close> of a prefixed key is
  \<open>"module."\<close>, which is prefixed again.
\<close>

lemma strip_module_Some_no_prefix:
  assumes "strip_module key = Some key'"
  shows "\<not> startswith key ''module.''"
proof (rule strip_module.raw_induct[where P = "\<lambda>k r. \<not> startswith k ''module.''", OF _ assms])
  fix f k r
  assume IH: "\<And>k r. f k = Some r \<Longrightarrow> \<not> startswith k ''module.''"
    and step: "(if startswith k ''module.'' then f (take 7 k) else Some k) = Some r"
  show "\<not> startswith k ''module.''"
  proof
    assume p: "startswith k ''module.''"
    with step have "f (take 7 k) = Some r" by simp
    from IH[OF this] startswith_take7[OF p] show False by simp
  qed
qed

lemma strip_module_prefixed: "startswith key ''module.'' \<Longrightarrow> strip_module key = None"
  using strip_module_Some_no_prefix by (cases "strip_module key") auto

lemma strip_module_unprefixed:
  "\<not> startswith key ''module.'' \<Longrightarrow> strip_module key = Some key"
  by (simp add: strip_module.simps)

text \<open>A checkpoint with one prefixed parameter name is enough: \<open>load\<close> does not return.\<close>

lemma strip_keys_prefixed:
  "(k, v) \<in> set state_dict_model \<Longrightarrow> startswith k ''module.'' \<Longrightarrow>
   strip_keys state_dict_model acc = None"
proof (induction state_dict_model arbitrary: acc)
  case Nil
  then show ?case by simp
next
  case (Cons a rest)
  then show ?case by (cases a) (auto simp: strip_module_prefixed split: option.splits)
qed

lemma load_unprefixed_example:
  "load_model_state_dict [(''conv1.weight'', 1::int), (''linear.bias'', 2)]
     = Some [(''conv1.weight'', 1), (''linear.bias'', 2)]"
  by (simp add: load_model_state_dict_def strip_module_unprefixed startswith_def)

text \<open>
  C2, on the code. For the saved model \<open>{"conv1.weight": 1, "module.conv1.bias": 2}\<close>
  the key loop of \<open>load\<close> does not terminate (the result \<open>None\<close>): no model state
  dict is produced, and \<open>module.conv1.bias\<close> is never mapped to \<open>conv1.bias\<close>.
\<close>

theorem load_module_prefix_never_returns:
  "load_model_state_dict [(''conv1.weight'', 1::int), (''module.conv1.bias'', 2)] = None"
  by (simp add: load_model_state_dict_def strip_module_unprefixed strip_module_prefixed
      startswith_def)

subsection \<open>Metrics stream\<close>

text \<open>Within one process a flush appends exactly one record to the open stream.\<close>

lemma log_metrics_appends_one:
  "log_metrics metric_sums metric_weights metrics metrics_out = Inr (s', w', out')
   \<Longrightarrow> \<exists>rec. out' = metrics_out @ [rec]"
  by (auto simp: log_metrics_def split: sum.splits)

text \<open>Opening the stream at startup leaves no record of an earlier process.\<close>

lemma open_train_metrics_out_truncates:
  assumes "fs traindir = Some Dir"
    and "fs (metrics_train_path traindir) = Some (File old)"
  shows "open_train_metrics_out traindir fs
           = (Inr (), fs(metrics_train_path traindir \<mapsto> File []))"
  using assms by (simp add: open_train_metrics_out_def write_file_def metrics_train_path_def)

text \<open>
  C3, on the code. A first process opens the stream in the training directory and
  flushes one record, which is then in \<open>metrics_train.json\<close>; the next process opens
  the stream at startup without an error, and the file holds no record: the record
  of the first process is gone.
\<close>

theorem metrics_stream_truncated_on_restart:
  "(let traindir = [''train''];
        fs0 = Map.empty([] \<mapsto> Dir, traindir \<mapsto> Dir);
        fs1 = snd (open_train_metrics_out traindir fs0);
        fs2 = snd (flush_train_metrics traindir [(''loss_sum'', 15)] [(''loss_sum'', 3/2)]
                     [(''loss_sum'', 10)] fs1);
        fs3 = snd (open_train_metrics_out traindir fs2)
    in fs1 (metrics_train_path traindir) = Some (File [])
     \<and> fs2 (metrics_train_path traindir) = Some (File [[(''loss'', 10)]])
     \<and> fst (open_train_metrics_out traindir fs2) = Inr ()
     \<and> fs3 (metrics_train_path traindir) = Some (File []))"
  by (simp add: Let_def open_train_metrics_out_def write_file_def metrics_train_path_def
      flush_train_metrics_def log_metrics_def endswith_def dict_get0_def py_div_def dict_mem_def)

subsection \<open>Checkpoint store\<close>

lemma rotation_indices: "rev [0 ..< NUM_SHORTTERM_CHECKPOINTS_TO_KEEP - 1] = [2, 1, 0]"
  by (simp add: NUM_SHORTTERM_CHECKPOINTS_TO_KEEP_def upt_rec)

text \<open>
  C5. In a training directory where neither \<open>checkpoint.ckpt\<close> nor a rotated
  \<open>checkpoint_prev\<close> file exists, \<open>save\<close> without a target path (rank 0) raises
  \<open>FileNotFoundError\<close>: no rotation happens, the copy of the missing
  \<open>checkpoint.ckpt\<close> raises, and the file system is left as it was, so
  \<open>checkpoint.ckpt\<close> is still missing at the next save.
\<close>

theorem save_default_fresh_dir_fails:
  assumes "fs (get_checkpoint_path traindir) = None"
    and "\<forall>i < NUM_SHORTTERM_CHECKPOINTS_TO_KEEP. fs (get_checkpoint_prev_path traindir i) = None"
  shows "save 0 traindir state_dict None fs = (Inl FileNotFoundError, fs)"
proof -
  have p: "fs (get_checkpoint_prev_path traindir 0) = None"
    "fs (get_checkpoint_prev_path traindir 1) = None"
    "fs (get_checkpoint_prev_path traindir 2) = None"
    using assms(2) by (simp_all add: NUM_SHORTTERM_CHECKPOINTS_TO_KEEP_def)
  show ?thesis
    unfolding save_def rotation_indices
    using assms(1) p
    by (simp add: rotate_prev_def path_exists_def shutil_copy_def)
qed

text \<open>
  Witness for C5: a training directory that holds only \<open>model.config.json\<close>.
\<close>

theorem save_default_fresh_dir_fails_witness:
  "save 0 [''train''] ''state'' None
     (Map.empty([] \<mapsto> Dir, [''train''] \<mapsto> Dir,
        [''train'', ''model.config.json''] \<mapsto> File ''config''))
   = (Inl FileNotFoundError,
      Map.empty([] \<mapsto> Dir, [''train''] \<mapsto> Dir,
        [''train'', ''model.config.json''] \<mapsto> File ''config''))"
  using save_default_fresh_dir_fails[of
      "Map.empty([] \<mapsto> Dir, [''train''] \<mapsto> Dir,
         [''train'', ''model.config.json''] \<mapsto> File ''config'')"
      "[''train'']" "''state''"]
  by (simp add: get_checkpoint_path_def get_checkpoint_prev_path_def)

subsection \<open>Export\<close>

lemma keepsD:
  assumes "keeps q m" and "\<not> path_exists fs q" and "m fs = (r, fs')"
  shows "\<not> path_exists fs' q"
proof -
  from assms(1,2) have "\<not> path_exists (snd (m fs)) q"
    unfolding keeps_def by blast
  with assms(3) show ?thesis by simp
qed

lemma keeps_write_file: "q \<noteq> p \<Longrightarrow> keeps q (write_file p c)"
  by (auto simp: keeps_def path_exists_def write_file_def split: option.splits node.splits)

lemma keeps_os_mkdir: "q \<noteq> p \<Longrightarrow> keeps q (os_mkdir p)"
  by (auto simp: keeps_def path_exists_def os_mkdir_def split: option.splits node.splits)

lemma keeps_os_replace: "\<not> is_under q dst \<Longrightarrow> keeps q (os_replace src dst)"
  by (auto simp: keeps_def path_exists_def os_replace_def move_tree_def
      split: option.splits node.splits)

lemma keeps_run_all: "(\<And>m. m \<in> set ms \<Longrightarrow> keeps q m) \<Longrightarrow> keeps q (run_all ms)"
proof (induction ms)
  case Nil
  then show ?case by (simp add: keeps_def)
next
  case (Cons m ms)
  have km: "keeps q m" using Cons.prems by simp
  have kr: "keeps q (run_all ms)" using Cons by simp
  show ?case unfolding keeps_def
  proof (intro allI impI)
    fix fs :: "'a fs" assume n: "\<not> path_exists fs q"
    obtain r fs' where m: "m fs = (r, fs')" by (cases "m fs")
    from keepsD[OF km n m] have n': "\<not> path_exists fs' q" .
    show "\<not> path_exists (snd (run_all (m # ms) fs)) q"
      using m n' kr by (cases r) (auto simp: keeps_def)
  qed
qed

lemma keeps_save:
  "q \<noteq> path_add p ''.tmp'' \<Longrightarrow> \<not> is_under q p \<Longrightarrow>
   keeps q (save rank traindir state_dict (Some p))"
  unfolding save_def
  by (auto intro!: keeps_run_all keeps_write_file keeps_os_replace)

text \<open>
  A sequence stops at a statement that raises whenever \<open>q\<close> is absent, if the
  statements before it never create \<open>q\<close>.
\<close>

lemma run_all_stops_at_failure:
  assumes "\<And>fs. \<not> path_exists fs q \<Longrightarrow> \<exists>e. fst (m fs) = Inl e"
    and "\<And>m'. m' \<in> set pre \<Longrightarrow> keeps q m'"
    and "\<not> path_exists fs q"
  shows "run_all (pre @ m # post) fs = run_all (pre @ [m]) fs
         \<and> (\<exists>e. fst (run_all (pre @ [m]) fs) = Inl e)"
  using assms(2,3)
proof (induction pre arbitrary: fs)
  case Nil
  obtain e where "fst (m fs) = Inl e" using assms(1)[OF Nil(2)] by auto
  then show ?case by (cases "m fs") auto
next
  case (Cons a pre)
  obtain r fs' where a: "a fs = (r, fs')" by (cases "a fs")
  have "keeps q a" using Cons.prems(1) by simp
  from keepsD[OF this Cons.prems(2) a] have n': "\<not> path_exists fs' q" .
  have k: "\<And>m'. m' \<in> set pre \<Longrightarrow> keeps q m'" using Cons.prems(1) by simp
  show ?case
  proof (cases r)
    case (Inl e)
    then show ?thesis using a by simp
  next
    case (Inr u)
    then show ?thesis using a Cons.IH[OF k n'] by simp
  qed
qed

text \<open>When the export directory exists already, the export step does nothing.\<close>

lemma export_step_existing_noop:
  assumes "path_exists fs (exportdir @ [export_modelname exportprefix steps row])"
  shows "export_step traindir exportdir exportprefix steps row state_dict th cfg fs
           = (Inr (), fs)"
  using assms by (simp add: export_step_def Let_def)

text \<open>
  When it does not exist, the export step always raises and the directory never
  appears under its final name: nothing creates the \<open>saved_model\<close> subdirectory of the
  temporary directory, so the write of \<open>saved_model/model.config.json\<close> raises before
  the rename. (The second hypothesis holds in every file system where a path exists
  only inside an existing directory, once \<open>os.mkdir\<close> has succeeded.)
\<close>

lemma export_step_never_completes:
  fixes fs :: "'c fs"
  assumes "\<not> path_exists fs (exportdir @ [export_modelname exportprefix steps row])"
    and "\<not> path_exists fs
           (exportdir @ [export_modelname exportprefix steps row @ ''.tmp'', ''saved_model''])"
  shows "(\<exists>e. fst (export_step traindir exportdir exportprefix steps row sd th cfg fs) = Inl e)
       \<and> \<not> path_exists (snd (export_step traindir exportdir exportprefix steps row sd th cfg fs))
           (exportdir @ [export_modelname exportprefix steps row])"
proof -
  define name where "name = export_modelname exportprefix steps row"
  define savepath where "savepath = exportdir @ [name]"
  define tmp where "tmp = exportdir @ [name @ ''.tmp'']"
  define pre :: "'c io list" where "pre = [os_mkdir tmp,
              save 0 traindir sd (Some (tmp @ [''model.ckpt''])),
              write_file (tmp @ [''trainhistory.json'']) th,
              write_file (tmp @ [''model.config.json'']) cfg]"
  define m :: "'c io"
    where "m = write_file (tmp @ [''saved_model'', ''model.config.json'']) cfg"
  define post :: "'c io list"
    where "post = [write_file (tmp @ [''non_swa_saved_model'', ''model.config.json'']) cfg,
              os_rename tmp savepath]"
  define q where "q = tmp @ [''saved_model'']"
  have e: "export_step traindir exportdir exportprefix steps row sd th cfg fs
            = run_all (pre @ m # post) fs"
    using assms(1)
    by (simp add: export_step_def Let_def name_def savepath_def tmp_def pre_def
        m_def post_def)
  have mfail: "\<And>fs :: 'c fs. \<not> path_exists fs q \<Longrightarrow> \<exists>e. fst (m fs) = Inl e"
    by (simp add: m_def q_def write_file_def butlast_append path_exists_def)
  have kq: "\<And>m'. m' \<in> set pre \<Longrightarrow> keeps q m'"
    by (auto simp: pre_def q_def tmp_def path_add_def is_under_def butlast_append
        intro!: keeps_os_mkdir keeps_save keeps_write_file)
  have q0: "\<not> path_exists fs q" using assms(2) by (simp add: q_def tmp_def name_def)
  note st = run_all_stops_at_failure[OF mfail kq q0, where post = post]
  from st have r: "run_all (pre @ m # post) fs = run_all (pre @ [m]) fs"
    by (rule conjunct1)
  from st have f: "\<exists>e. fst (run_all (pre @ [m]) fs) = Inl e"
    by (rule conjunct2)
  have ks: "\<And>m'. m' \<in> set (pre @ [m]) \<Longrightarrow> keeps savepath m'"
    by (auto simp: pre_def m_def savepath_def tmp_def path_add_def is_under_def butlast_append
        intro!: keeps_os_mkdir keeps_save keeps_write_file)
  have "keeps savepath (run_all (pre @ [m]))" by (rule keeps_run_all) (rule ks)
  then have k: "\<not> path_exists (snd (run_all (pre @ [m]) fs))
                    (exportdir @ [export_modelname exportprefix steps row])"
    using assms(1) by (simp add: keeps_def savepath_def name_def)
  show ?thesis
    unfolding e r using f k by blast
qed

lemma export_modelname_example: "export_modelname ''kata'' 128 5000 = ''kata-s128-d5000''"
  by (simp add: export_modelname_def string_of_int_def string_of_nat.simps)

text \<open>
  C4, on the code. With prefix \<open>kata\<close>, step 128 and row 5000, in an export directory
  that is empty: the first call of the export step raises \<open>FileNotFoundError\<close>, after
  it has written the checkpoint, the history and the config into the temporary
  directory \<open>kata-s128-d5000.tmp\<close>; no directory \<open>kata-s128-d5000\<close> exists
  afterwards. The second call with the same inputs raises \<open>FileExistsError\<close> (the
  temporary directory is still there) and changes nothing.
\<close>

theorem export_twice_raises:
  "(let fs0 = Map.empty([] \<mapsto> Dir, [''exports''] \<mapsto> Dir);
        fs1 = fs0([''exports'', ''kata-s128-d5000.tmp''] \<mapsto> Dir,
                  [''exports'', ''kata-s128-d5000.tmp'', ''model.ckpt''] \<mapsto> File ''ckpt'',
                  [''exports'', ''kata-s128-d5000.tmp'', ''trainhistory.json'']
                     \<mapsto> File ''history'',
                  [''exports'', ''kata-s128-d5000.tmp'', ''model.config.json'']
                     \<mapsto> File ''config'')
    in export_step [''train''] [''exports''] ''kata'' 128 5000 ''ckpt'' ''history'' ''config'' fs0
         = (Inl FileNotFoundError, fs1)
     \<and> fs1 [''exports'', ''kata-s128-d5000''] = None
     \<and> export_step [''train''] [''exports''] ''kata'' 128 5000 ''ckpt'' ''history'' ''config'' fs1
         = (Inl FileExistsError, fs1))"
  apply (simp add: export_step_def export_modelname_example path_exists_def os_mkdir_def
      save_def write_file_def path_add_def os_replace_def move_tree_def is_under_def Let_def)
  apply (rule ext)
  apply (simp add: is_under_def)
  done

subsection \<open>Train bucket limiter\<close>

text \<open>
  The key \<open>train_bucket_level_at_row\<close> is looked up in \<open>trainhistory\<close>. When it is not
  there, the accounted row is set to the new end row first, the comparison that follows
  is false, and the level stays as it was.
\<close>

lemma advance_bucket_key_absent:
  assumes "\<not> dict_mem th ''train_bucket_level_at_row''"
  shows "advance_bucket (Some fill) max_train_bucket_size samples_per_epoch th row ts
         = Inr (ts\<lparr>train_bucket_level_at_row := Some row\<rparr>)"
  using assms by (simp add: advance_bucket_def)

text \<open>
  The program never stores that key in \<open>trainhistory\<close>: it appends to \<open>"history"\<close>
  and \<open>save_history\<close> writes \<open>"train_state"\<close> and \<open>"extra_stats"\<close>.
\<close>

lemma history_append_keys:
  "history_append th ev = Inr th' \<Longrightarrow> dict_mem th' k = dict_mem th k"
  by (auto simp: history_append_def dict_mem_def map_of_dict_set
      split: option.splits th_value.splits if_splits)

lemma save_history_snapshot_keys:
  "dict_mem (save_history_snapshot th ts s w) k
     = (k = ''train_state'' \<or> k = ''extra_stats'' \<or> dict_mem th k)"
  by (auto simp: save_history_snapshot_def dict_mem_def map_of_dict_set)

text \<open>
  With the key in \<open>trainhistory\<close> (a history file from elsewhere) the update is the
  one the source's log messages describe: the level rises by the new rows times the fill
  rate, up to the cap.
\<close>

lemma advance_bucket_key_present:
  assumes "dict_mem th ''train_bucket_level_at_row''"
    and "train_bucket_level_at_row ts = Some at_row"
    and "train_bucket_level ts = Some level"
    and "at_row < row"
  shows "advance_bucket (Some fill) max_train_bucket_size samples_per_epoch th row ts
         = Inr (ts\<lparr>train_bucket_level_at_row := Some row,
                   train_bucket_level :=
                     Some (min (level + of_int (row - at_row) * fill)
                               (max max_train_bucket_size (of_int samples_per_epoch)))\<rparr>)"
  using assms by (auto simp: advance_bucket_def Let_def min_def max_def)

text \<open>
  C1, on the code. Fill rate 2, cap 1000, 100 samples per epoch; the bucket level is
  100 and rows up to 1000 are accounted. A reload that finds a new data directory
  ending at row 1050 (50 new rows) advances \<open>train_bucket_level_at_row\<close> to 1050 and
  leaves the level at 100, not 200. A second advance by 50 rows leaves it at 100
  again; then one epoch consumes 100 and the next consume fails.
\<close>

theorem reload_new_rows_leave_bucket_level:
  "(let ts = (\<lambda>level row. \<lparr>global_step_samples = 0, train_bucket_level = Some level,
                train_bucket_level_at_row = Some row, train_steps_since_last_reload = 0,
                export_cycle_counter = 0\<rparr>);
        th = [(''history'', History [Started ''t0'', NewData 0 (0, 1000)])]
    in reload_pass (Some 2) 1000 100 1 None
         \<lparr>curdatadir = [''data'', ''shuffled2''], curdatadir_exists = True,
          datainfo_range = Some (0, 1050), train_listing = Some [''a.npz'', ''a.json'']\<rparr>
         (\<lparr>last_curdatadir = Some [''data'', ''shuffled1''], last_datainfo_row = 1000,
           train_files = [], num_train_files = 0, vdatadir = None\<rparr>,
          ts 100 1000, th)
       = Inr (Ready,
          \<lparr>last_curdatadir = Some [''data'', ''shuffled2''], last_datainfo_row = 1050,
           train_files = [[''data'', ''shuffled2'', ''train'', ''a.npz'']],
           num_train_files = 1, vdatadir = Some [''data'', ''shuffled2'', ''val'']\<rparr>,
          ts 100 1050,
          [(''history'', History [Started ''t0'', NewData 0 (0, 1000), NewData 0 (0, 1050)])])
     \<and> advance_bucket (Some 2) 1000 100 th 1100 (ts 100 1050) = Inr (ts 100 1100)
     \<and> consume_bucket (Some 2) 100 (ts 100 1100) = Inr (Proceed, ts 0 1100)
     \<and> consume_bucket (Some 2) 100 (ts 0 1100) = Inr (WaitAndRetry 300, ts 0 1100))"
  by (simp add: Let_def reload_pass_def advance_bucket_def consume_bucket_def
      history_append_def dict_mem_def endswith_def)

text \<open>
  C6, as the code has it. With bucket limiting enabled and the level present: when
  the level is strictly above \<open>0.99 * samples_per_epoch\<close>, exactly
  \<open>samples_per_epoch\<close> is debited and the epoch proceeds; otherwise, which includes a
  level equal to \<open>0.99 * samples_per_epoch\<close>, the train state is unchanged and the
  driver waits 300 seconds and retries.
\<close>

theorem consume_bucket_strict_threshold:
  assumes "train_bucket_level ts = Some level"
  shows "(level > 99 / 100 * of_int samples_per_epoch \<longrightarrow>
            consume_bucket (Some fill) samples_per_epoch ts
              = Inr (Proceed, ts\<lparr>train_bucket_level := Some (level - of_int samples_per_epoch)\<rparr>))
       \<and> (level \<le> 99 / 100 * of_int samples_per_epoch \<longrightarrow>
            consume_bucket (Some fill) samples_per_epoch ts = Inr (WaitAndRetry 300, ts))"
  using assms by (simp add: consume_bucket_def)

text \<open>Witness for C6: level 100 is consumed, level 0 waits.\<close>

theorem consume_bucket_strict_threshold_witness:
  "consume_bucket (Some 2) 100
     \<lparr>global_step_samples = 0, train_bucket_level = Some 100,
      train_bucket_level_at_row = Some 0, train_steps_since_last_reload = 0,
      export_cycle_counter = 0\<rparr>
   = Inr (Proceed,
      \<lparr>global_step_samples = 0, train_bucket_level = Some 0,
       train_bucket_level_at_row = Some 0, train_steps_since_last_reload = 0,
       export_cycle_counter = 0\<rparr>)
  \<and> consume_bucket (Some 2) 100
     \<lparr>global_step_samples = 0, train_bucket_level = Some 0,
      train_bucket_level_at_row = Some 0, train_steps_since_last_reload = 0,
      export_cycle_counter = 0\<rparr>
   = Inr (WaitAndRetry 300,
      \<lparr>global_step_samples = 0, train_bucket_level = Some 0,
       train_bucket_level_at_row = Some 0, train_steps_since_last_reload = 0,
       export_cycle_counter = 0\<rparr>)"
  using consume_bucket_strict_threshold[of
      "\<lparr>global_step_samples = 0, train_bucket_level = Some 100,
        train_bucket_level_at_row = Some 0, train_steps_since_last_reload = 0,
        export_cycle_counter = 0\<rparr>" 100 100 2]
    consume_bucket_strict_threshold[of
      "\<lparr>global_step_samples = 0, train_bucket_level = Some 0,
        train_bucket_level_at_row = Some 0, train_steps_since_last_reload = 0,
        export_cycle_counter = 0\<rparr>" 0 100 2]
  by simp

text \<open>
  C6 as stated fails at the threshold: with 100 samples per epoch and level 99, which
  is \<open>0.99 * 100\<close>, nothing is debited and the driver waits.
\<close>

theorem consume_bucket_at_threshold_counterexample:
  "(99::real) \<ge> 99 / 100 * of_int 100
   \<and> consume_bucket (Some 2) 100
     \<lparr>global_step_samples = 0, train_bucket_level = Some 99,
      train_bucket_level_at_row = Some 0, train_steps_since_last_reload = 0,
      export_cycle_counter = 0\<rparr>
   = Inr (WaitAndRetry 300,
      \<lparr>global_step_samples = 0, train_bucket_level = Some 99,
       train_bucket_level_at_row = Some 0, train_steps_since_last_reload = 0,
       export_cycle_counter = 0\<rparr>)"
  by (simp add: consume_bucket_def)

subsection \<open>Sub-epoch file selection\<close>

text \<open>
  C7, as the code has it. When the running total is below the target and the next
  file, with a positive batch count, would push it over, the selection stops at this
  file: the file is either skipped or included. It can be skipped only when the running
  total is positive; when the running total is 0 (the first file already exceeds the
  target) the file is always included.
\<close>

theorem select_step_boundary:
  assumes "0 < b"
    and "of_int so_far < target"
    and "of_int (so_far + b) > target"
  shows "(select_step target (f, b) r (files, so_far) = Break (files, so_far)
          \<or> select_step target (f, b) r (files, so_far) = Break (files @ [f], so_far + b))
       \<and> (select_step target (f, b) r (files, so_far) = Break (files, so_far) \<longrightarrow> 0 < so_far)
       \<and> (so_far = 0 \<longrightarrow> select_step target (f, b) r (files, so_far) = Break (files @ [f], b))"
  using assms by (auto simp: select_step_def Let_def)

text \<open>
  Witness for C7: target 10 with 7 batches so far and a file of 6, once included and
  once skipped; and a first file of 10 batches for the target 5.
\<close>

theorem select_step_boundary_witness:
  "select_step 10 (''b.npz'', 6) (1/4) ([''a.npz''], 7) = Break ([''a.npz'', ''b.npz''], 13)
 \<and> select_step 10 (''b.npz'', 6) (3/4) ([''a.npz''], 7) = Break ([''a.npz''], 7)
 \<and> select_step 5 (''a.npz'', 10) (3/4) ([], 0) = Break ([''a.npz''], 10)"
  using select_step_boundary[of 6 7 10 "''b.npz''" "1/4" "[''a.npz'']"]
        select_step_boundary[of 6 7 10 "''b.npz''" "3/4" "[''a.npz'']"]
        select_step_boundary[of 10 0 5 "''a.npz''" "3/4" "[]"]
  by (simp add: select_step_def)

text \<open>
  C7 as stated fails for the first file: with target 5 and a first file of 10
  batches the stated skip probability is \<open>(0 + 10 - 5) / 10 = 1/2\<close>, but no draw in
  \<open>[0, 1)\<close> skips the file; the draws 1/10 and 9/10 both include it.
\<close>

theorem select_step_first_file_counterexample:
  "\<not> (\<exists>r. 0 \<le> r \<and> r < 1 \<and> select_step 5 (''a.npz'', 10) r ([], 0) = Break ([], 0))
   \<and> ((0 + 10 - 5) / 10 = (1/2::real))
   \<and> select_step 5 (''a.npz'', 10) (1/10) ([], 0) = Break ([''a.npz''], 10)
   \<and> select_step 5 (''a.npz'', 10) (9/10) ([], 0) = Break ([''a.npz''], 10)"
  by (simp add: select_step_def)

text \<open>
  For a later file the code skips exactly on the draws \<open>r\<close> at or above the proportion
  of batches over the target; a uniform draw in \<open>[0, 1)\<close> is there with one minus that
  proportion, while the source comment names the proportion itself as the skip
  probability.
\<close>

lemma select_step_skip_iff:
  assumes "0 < b" "0 < so_far" "of_int (so_far + b) > target"
  shows "select_step target (f, b) r (files, so_far) = Break (files, so_far)
         \<longleftrightarrow> r \<ge> (of_int (so_far + b) - target) / of_int b"
  using assms by (auto simp: select_step_def Let_def)

subsection \<open>Export cycle\<close>

lemma export_cycle_step:
  assumes "0 \<le> epe" "0 \<le> export_cycle_counter ts" "export_cycle_counter ts \<le> epe"
    and "export_cycle epe ne p r ts = (d, ts')"
  shows "0 \<le> export_cycle_counter ts' \<and> export_cycle_counter ts' \<le> epe \<and> (ne \<longrightarrow> \<not> d)"
  using assms by (auto simp: export_cycle_def Let_def split: if_splits option.splits)

lemma run_epochs_invariant:
  "0 \<le> epe \<Longrightarrow> 0 \<le> export_cycle_counter ts \<Longrightarrow> export_cycle_counter ts \<le> epe \<Longrightarrow>
   run_epochs epe ne p rs ts = (ds, ts') \<Longrightarrow>
   0 \<le> export_cycle_counter ts' \<and> export_cycle_counter ts' \<le> epe
   \<and> (ne \<longrightarrow> True \<notin> set ds)"
proof (induction rs arbitrary: ts ds)
  case Nil
  then show ?case by simp
next
  case (Cons r rs)
  obtain d ts1 where s: "export_cycle epe ne p r ts = (d, ts1)"
    by (cases "export_cycle epe ne p r ts")
  obtain ds1 ts2 where t: "run_epochs epe ne p rs ts1 = (ds1, ts2)"
    by (cases "run_epochs epe ne p rs ts1")
  from Cons.prems(4) s t have e: "ds = d # ds1" "ts' = ts2" by simp_all
  from export_cycle_step[OF Cons.prems(1-3) s]
  have i: "0 \<le> export_cycle_counter ts1" "export_cycle_counter ts1 \<le> epe" "ne \<longrightarrow> \<not> d"
    by simp_all
  from Cons.IH[OF Cons.prems(1) i(1) i(2) t[unfolded e(2)[symmetric]]] i(3) e
  show ?case by auto
qed

text \<open>
  C8. For a period \<open>epochs_per_export \<ge> 0\<close> and a counter that starts inside
  \<open>[0, epochs_per_export]\<close> (a fresh train state starts at 0), the counter is inside
  the interval after any number of completed epochs, whatever the draws; with exports
  disabled no export is ever decided. In one epoch the counter advances by 1 while it
  stays below the period; when it reaches the period with exports disabled it is set
  to the period and nothing is exported; when it reaches the period with exports
  enabled it is reset to 0 and the export is decided, unless an export probability is
  given and the draw is above it. The counter is 0 after every epoch that decides an
  export. With period 3, five epochs from counter 0 end with exports disabled at
  counter 3 and five decisions not to export, and with exports enabled at counter 2
  with the one export decided at the third epoch.
\<close>

theorem export_cycle_counter_in_range:
  assumes "0 \<le> epochs_per_export"
    and "0 \<le> export_cycle_counter ts"
    and "export_cycle_counter ts \<le> epochs_per_export"
  shows "0 \<le> export_cycle_counter (snd (run_epochs epochs_per_export no_export export_prob rs ts))
       \<and> export_cycle_counter (snd (run_epochs epochs_per_export no_export export_prob rs ts))
           \<le> epochs_per_export
       \<and> (no_export \<longrightarrow>
            True \<notin> set (fst (run_epochs epochs_per_export no_export export_prob rs ts)))
       \<and> (export_cycle_counter ts + 1 < epochs_per_export \<longrightarrow>
            export_cycle epochs_per_export no_export export_prob r ts
              = (False, ts\<lparr>export_cycle_counter := export_cycle_counter ts + 1\<rparr>))
       \<and> (export_cycle_counter ts + 1 \<ge> epochs_per_export \<and> no_export \<longrightarrow>
            export_cycle epochs_per_export no_export export_prob r ts
              = (False, ts\<lparr>export_cycle_counter := epochs_per_export\<rparr>))
       \<and> (export_cycle_counter ts + 1 \<ge> epochs_per_export \<and> \<not> no_export \<longrightarrow>
            export_cycle epochs_per_export no_export export_prob r ts
              = ((case export_prob of None \<Rightarrow> True | Some p \<Rightarrow> \<not> r > p),
                 ts\<lparr>export_cycle_counter := 0\<rparr>))
       \<and> (fst (export_cycle epochs_per_export no_export export_prob r ts) \<longrightarrow>
            export_cycle_counter
              (snd (export_cycle epochs_per_export no_export export_prob r ts)) = 0)
       \<and> run_epochs 3 True None [ra, rb, rc, rd, re] (ts\<lparr>export_cycle_counter := 0\<rparr>)
           = ([False, False, False, False, False], ts\<lparr>export_cycle_counter := 3\<rparr>)
       \<and> run_epochs 3 False None [ra, rb, rc, rd, re] (ts\<lparr>export_cycle_counter := 0\<rparr>)
           = ([False, False, True, False, False], ts\<lparr>export_cycle_counter := 2\<rparr>)"
proof -
  obtain ds ts' where r: "run_epochs epochs_per_export no_export export_prob rs ts = (ds, ts')"
    by (cases "run_epochs epochs_per_export no_export export_prob rs ts")
  from run_epochs_invariant[OF assms r]
  have a: "0 \<le> export_cycle_counter
                 (snd (run_epochs epochs_per_export no_export export_prob rs ts))
       \<and> export_cycle_counter (snd (run_epochs epochs_per_export no_export export_prob rs ts))
           \<le> epochs_per_export
       \<and> (no_export \<longrightarrow>
            True \<notin> set (fst (run_epochs epochs_per_export no_export export_prob rs ts)))"
    unfolding r fst_conv snd_conv .
  have b: "export_cycle_counter ts + 1 < epochs_per_export \<longrightarrow>
            export_cycle epochs_per_export no_export export_prob r ts
              = (False, ts\<lparr>export_cycle_counter := export_cycle_counter ts + 1\<rparr>)"
    by (simp add: export_cycle_def)
  have c: "export_cycle_counter ts + 1 \<ge> epochs_per_export \<and> no_export \<longrightarrow>
            export_cycle epochs_per_export no_export export_prob r ts
              = (False, ts\<lparr>export_cycle_counter := epochs_per_export\<rparr>)"
    by (simp add: export_cycle_def)
  have c': "export_cycle_counter ts + 1 \<ge> epochs_per_export \<and> \<not> no_export \<longrightarrow>
            export_cycle epochs_per_export no_export export_prob r ts
              = ((case export_prob of None \<Rightarrow> True | Some p \<Rightarrow> \<not> r > p),
                 ts\<lparr>export_cycle_counter := 0\<rparr>)"
    by (simp add: export_cycle_def split: option.splits)
  have d: "fst (export_cycle epochs_per_export no_export export_prob r ts) \<longrightarrow>
            export_cycle_counter
              (snd (export_cycle epochs_per_export no_export export_prob r ts)) = 0"
    by (simp add: export_cycle_def Let_def split: if_splits)
  have e: "run_epochs 3 True None [ra, rb, rc, rd, re] (ts\<lparr>export_cycle_counter := 0\<rparr>)
           = ([False, False, False, False, False], ts\<lparr>export_cycle_counter := 3\<rparr>)"
    by (simp add: export_cycle_def)
  have e': "run_epochs 3 False None [ra, rb, rc, rd, re] (ts\<lparr>export_cycle_counter := 0\<rparr>)
           = ([False, False, True, False, False], ts\<lparr>export_cycle_counter := 2\<rparr>)"
    by (simp add: export_cycle_def)
  from a b c c' d e e' show ?thesis by blast
qed

text \<open>
  Witness for C8, at period 3 from a fresh train state. With exports disabled, five
  epochs end at counter 3 with no export. With exports enabled, five epochs export
  once, at the third epoch, and end at counter 2; an epoch that starts at counter 2
  decides the export and resets the counter to 0; and with export probability 1/4 and
  the draw 1/2 the same epoch resets the counter to 0 without an export.
\<close>

theorem export_cycle_counter_in_range_witness:
  "snd (run_epochs 3 True None [1/2, 1/2, 1/2, 1/2, 1/2]
     \<lparr>global_step_samples = 0, train_bucket_level = None, train_bucket_level_at_row = None,
      train_steps_since_last_reload = 0, export_cycle_counter = 0\<rparr>)
   = \<lparr>global_step_samples = 0, train_bucket_level = None, train_bucket_level_at_row = None,
      train_steps_since_last_reload = 0, export_cycle_counter = 3\<rparr>
   \<and> True \<notin> set (fst (run_epochs 3 True None [1/2, 1/2, 1/2, 1/2, 1/2]
     \<lparr>global_step_samples = 0, train_bucket_level = None, train_bucket_level_at_row = None,
      train_steps_since_last_reload = 0, export_cycle_counter = 0\<rparr>))
   \<and> run_epochs 3 False None [1/2, 1/2, 1/2, 1/2, 1/2]
     \<lparr>global_step_samples = 0, train_bucket_level = None, train_bucket_level_at_row = None,
      train_steps_since_last_reload = 0, export_cycle_counter = 0\<rparr>
     = ([False, False, True, False, False],
        \<lparr>global_step_samples = 0, train_bucket_level = None, train_bucket_level_at_row = None,
         train_steps_since_last_reload = 0, export_cycle_counter = 2\<rparr>)
   \<and> export_cycle 3 False None (1/2)
     \<lparr>global_step_samples = 0, train_bucket_level = None, train_bucket_level_at_row = None,
      train_steps_since_last_reload = 0, export_cycle_counter = 2\<rparr>
     = (True,
        \<lparr>global_step_samples = 0, train_bucket_level = None, train_bucket_level_at_row = None,
         train_steps_since_last_reload = 0, export_cycle_counter = 0\<rparr>)
   \<and> export_cycle 3 False (Some (1/4)) (1/2)
     \<lparr>global_step_samples = 0, train_bucket_level = None, train_bucket_level_at_row = None,
      train_steps_since_last_reload = 0, export_cycle_counter = 2\<rparr>
     = (False,
        \<lparr>global_step_samples = 0, train_bucket_level = None, train_bucket_level_at_row = None,
         train_steps_since_last_reload = 0, export_cycle_counter = 0\<rparr>)"
proof -
  let ?fresh = "\<lparr>global_step_samples = 0, train_bucket_level = None,
        train_bucket_level_at_row = None, train_steps_since_last_reload = 0,
        export_cycle_counter = 0\<rparr>"
  let ?two = "\<lparr>global_step_samples = 0, train_bucket_level = None,
        train_bucket_level_at_row = None, train_steps_since_last_reload = 0,
        export_cycle_counter = 2\<rparr>"
  note disabled = export_cycle_counter_in_range[where epochs_per_export = 3
      and no_export = True and export_prob = None and rs = "[1/2, 1/2, 1/2, 1/2, 1/2]"
      and r = "1/2" and ra = "1/2" and rb = "1/2" and rc = "1/2" and rd = "1/2"
      and re = "1/2" and ts = ?fresh]
  note enabled = export_cycle_counter_in_range[where epochs_per_export = 3
      and no_export = False and export_prob = None and rs = "[1/2, 1/2, 1/2, 1/2, 1/2]"
      and r = "1/2" and ra = "1/2" and rb = "1/2" and rc = "1/2" and rd = "1/2"
      and re = "1/2" and ts = ?fresh]
  note at_period = export_cycle_counter_in_range[where epochs_per_export = 3
      and no_export = False and export_prob = None and rs = "[]"
      and r = "1/2" and ts = ?two]
  note skipped = export_cycle_counter_in_range[where epochs_per_export = 3
      and no_export = False and export_prob = "Some (1/4)" and rs = "[]"
      and r = "1/2" and ts = ?two]
  have d: "snd (run_epochs 3 True None [1/2, 1/2, 1/2, 1/2, 1/2] ?fresh)
             = ?fresh\<lparr>export_cycle_counter := 3\<rparr>
           \<and> True \<notin> set (fst (run_epochs 3 True None [1/2, 1/2, 1/2, 1/2, 1/2] ?fresh))"
    using disabled by (simp del: run_epochs.simps)
  have e: "run_epochs 3 False None [1/2, 1/2, 1/2, 1/2, 1/2] ?fresh
             = ([False, False, True, False, False], ?fresh\<lparr>export_cycle_counter := 2\<rparr>)"
    using enabled by (simp del: run_epochs.simps)
  have p: "export_cycle 3 False None (1/2) ?two = (True, ?two\<lparr>export_cycle_counter := 0\<rparr>)"
    using at_period by simp
  have s: "export_cycle 3 False (Some (1/4)) (1/2) ?two
             = (False, ?two\<lparr>export_cycle_counter := 0\<rparr>)"
    using skipped by simp
  from d e p s show ?thesis by simp
qed

end
